theory Spec2Isabelle
  imports Main
begin

section \<open>Values exchanged with the client and with the store\<close>

text \<open>
  A JavaScript \<open>Date\<close> instance is represented by what its UTC getters return
  (year, month 1..12, day, hours, minutes, seconds, milliseconds), or is the
  invalid date. A cell of a result row is a number, a string or a \<open>Date\<close>.
\<close>

datatype jsdate = InvalidDate | UTCDate int nat nat nat nat nat nat

datatype cell = CNum nat | CStr string | CDate jsdate

type_synonym row = "(string \<times> cell) list"

text \<open>
  What a handler sends: \<open>res.send(text)\<close>, \<open>res.json(object)\<close> or
  \<open>res.json(rows)\<close>.
\<close>

datatype body = Text string | Obj row | Rows "row list"

text \<open>
  The error taxonomy of the middleware (spec section 7): the middleware file is not
  among the sources, so its rejections are kept as error values and not as
  status numbers.
\<close>

datatype mw_error = ValidationError "string list" | Unauthenticated | Forbidden

text \<open>
  The outcome of a request: a middleware ended it, the handler replied with a status
  and a body, or an exception escaped the handler (no \<open>try\<close> block around it).
\<close>

datatype outcome = Rejected mw_error | Reply nat body | Unhandled string


section \<open>Date.prototype.toISOString and the calendar-date text form\<close>

definition digit :: "nat \<Rightarrow> char" where
  "digit n = ''0123456789'' ! (n mod 10)"

definition is_digit :: "char \<Rightarrow> bool" where
  "is_digit c = (c \<in> set ''0123456789'')"

definition pad2 :: "nat \<Rightarrow> string" where
  "pad2 n = [digit (n div 10), digit n]"

definition pad3 :: "nat \<Rightarrow> string" where
  "pad3 n = [digit (n div 100), digit (n div 10), digit n]"

definition pad4 :: "nat \<Rightarrow> string" where
  "pad4 n = [digit (n div 1000), digit (n div 100), digit (n div 10), digit n]"

definition pad6 :: "nat \<Rightarrow> string" where
  "pad6 n = [digit (n div 100000), digit (n div 10000), digit (n div 1000),
             digit (n div 100), digit (n div 10), digit n]"

text \<open>
  ECMAScript: years 0..9999 print with four digits, all others with a sign and six
  digits; the invalid date raises \<open>RangeError\<close>.
\<close>

definition iso_year :: "int \<Rightarrow> string" where
  "iso_year y =
     (if 0 \<le> y \<and> y \<le> 9999 then pad4 (nat y)
      else (if y < 0 then ''-'' else ''+'') @ pad6 (nat \<bar>y\<bar>))"

fun toISOString :: "jsdate \<Rightarrow> string + string" where
  "toISOString InvalidDate = Inl ''Invalid time value''"
| "toISOString (UTCDate y mo d h mi s ms) =
     Inr (iso_year y @ ''-'' @ pad2 mo @ ''-'' @ pad2 d @ ''T'' @
          pad2 h @ '':'' @ pad2 mi @ '':'' @ pad2 s @ ''.'' @ pad3 ms @ ''Z'')"

text \<open>\<open>s.split("T")[0]\<close>: the text before the first \<open>T\<close>.\<close>

definition split_T_0 :: "string \<Rightarrow> string" where
  "split_T_0 s = takeWhile (\<lambda>c. c \<noteq> CHR ''T'') s"

text \<open>The text form \<open>YYYY-MM-DD\<close>: ten characters, digits around two dashes.\<close>

definition is_ymd :: "string \<Rightarrow> bool" where
  "is_ymd s \<longleftrightarrow>
     length s = 10 \<and> s ! 4 = CHR ''-'' \<and> s ! 7 = CHR ''-'' \<and>
     list_all (\<lambda>i. is_digit (s ! i)) [0, 1, 2, 3, 5, 6, 8, 9]"


section \<open>The request schemas (zod)\<close>

text \<open>
  \<open>z.string().date()\<close> accepts exactly the texts \<open>YYYY-MM-DD\<close> that name a day of
  the proleptic Gregorian calendar (its regular expression spells out the month
  lengths and the leap years).
\<close>

definition digit_val :: "char \<Rightarrow> nat" where
  "digit_val c = of_char c - 48"

definition num_of :: "string \<Rightarrow> nat" where
  "num_of s = foldl (\<lambda>a c. 10 * a + digit_val c) 0 s"

definition leap_year :: "nat \<Rightarrow> bool" where
  "leap_year y \<longleftrightarrow> (y mod 4 = 0 \<and> y mod 100 \<noteq> 0) \<or> y mod 400 = 0"

definition days_in_month :: "nat \<Rightarrow> nat \<Rightarrow> nat" where
  "days_in_month y m =
     (if m = 2 then (if leap_year y then 29 else 28)
      else if m \<in> {4, 6, 9, 11} then 30 else 31)"

definition zod_date :: "string \<Rightarrow> bool" where
  "zod_date s \<longleftrightarrow>
     is_ymd s \<and>
     (let y = num_of (take 4 s); m = num_of (take 2 (drop 5 s));
          d = num_of (take 2 (drop 8 s))
      in 1 \<le> m \<and> m \<le> 12 \<and> 1 \<le> d \<and> d \<le> days_in_month y m)"


section \<open>External libraries and configuration\<close>

text \<open>The payload signed into a token by the login handler: \<open>{ id, role }\<close>.\<close>

record payload =
  payload_id :: nat
  payload_role :: string

text \<open>
  The libraries are parameters of the model: \<open>bcrypt.hash(password, rounds)\<close> with the
  salt it draws made explicit, \<open>bcrypt.compare\<close>, \<open>jwt.sign(payload, key)\<close> with the
  issue time it stamps made explicit, \<open>jwt.verify\<close>, zod's e-mail check, and the
  conversion the database driver applies to a temporal column when it is asked for
  \<open>Date\<close> objects (connection time zone, column text).
\<close>

record libs =
  bcrypt_hash :: "string \<Rightarrow> nat \<Rightarrow> string \<Rightarrow> string"
  bcrypt_compare :: "string \<Rightarrow> string \<Rightarrow> bool"
  jwt_sign :: "payload \<Rightarrow> string \<Rightarrow> nat \<Rightarrow> string"
  jwt_verify :: "string \<Rightarrow> string \<Rightarrow> payload option"
  zod_email :: "string \<Rightarrow> bool"
  inflate_date :: "string \<Rightarrow> string \<Rightarrow> jsdate"

text \<open>\<open>process.env\<close>: the signing key may be unset.\<close>

record env =
  JWT_KEY :: "string option"

text \<open>
  \<open>connectDb\<close> (lib.js): the options of the connection that matter to the rows it
  delivers. Host, user, database and password come from the environment.
\<close>

record connection =
  timezone :: string
  dateStrings :: bool

definition connectDb :: connection where
  "connectDb = \<lparr>timezone = ''+01:00'', dateStrings = True\<rparr>"


section \<open>The relational store\<close>

record user_row =
  user_id :: nat
  user_name :: string
  user_email :: string
  user_password :: string
  user_role :: string

record session_row =
  session_id :: nat
  session_title :: string
  session_date :: string
  session_formateur_id :: nat

record emargement_row =
  emargement_id :: nat
  emargement_session_id :: nat
  emargement_etudiant_id :: nat
  emargement_status :: string

text \<open>
  Modelled from the spec: the table declarations are not among the sources. Section 3
  gives the three tables with store-assigned surrogate keys, a unique e-mail per
  user, foreign keys from a session to its trainer and from an attendance record to
  its session and trainee, a calendar-date column for the session date, and no
  uniqueness constraint on attendance records. Each table is the list of its rows in
  insertion order, with the next key the store will assign.
\<close>

record db =
  tbl_user :: "user_row list"
  tbl_session :: "session_row list"
  tbl_emargement :: "emargement_row list"
  auto_user :: nat
  auto_session :: nat
  auto_emargement :: nat

text \<open>The descriptor \<open>execute\<close> returns for a statement that is not a query.\<close>

record result_header =
  insertId :: nat
  affectedRows :: nat

text \<open>\<open>SELECT ... FROM user WHERE email = ?\<close>\<close>

definition select_user_by_email :: "db \<Rightarrow> string \<Rightarrow> user_row list" where
  "select_user_by_email d e = filter (\<lambda>u. user_email u = e) (tbl_user d)"

text \<open>\<open>SELECT id from user where name = ?\<close>\<close>

definition select_user_by_name :: "db \<Rightarrow> string \<Rightarrow> user_row list" where
  "select_user_by_name d n = filter (\<lambda>u. user_name u = n) (tbl_user d)"

definition user_exists :: "db \<Rightarrow> nat \<Rightarrow> bool" where
  "user_exists d i = (i \<in> set (map user_id (tbl_user d)))"

definition session_exists :: "db \<Rightarrow> nat \<Rightarrow> bool" where
  "session_exists d i = (i \<in> set (map session_id (tbl_session d)))"

text \<open>
  Modelled from the spec: \<open>INSERT INTO user\<close> fails on an e-mail already stored
  (the uniqueness constraint of section 3), else appends the row under a fresh key.
\<close>

definition insert_user ::
  "db \<Rightarrow> string \<Rightarrow> string \<Rightarrow> string \<Rightarrow> string \<Rightarrow> string + (result_header \<times> db)" where
  "insert_user d n e p r =
     (if select_user_by_email d e \<noteq> [] then Inl ''Duplicate entry for key user.email''
      else Inr (\<lparr>insertId = auto_user d, affectedRows = 1\<rparr>,
                d\<lparr>tbl_user := tbl_user d @
                     [\<lparr>user_id = auto_user d, user_name = n, user_email = e,
                       user_password = p, user_role = r\<rparr>],
                   auto_user := Suc (auto_user d)\<rparr>))"

text \<open>
  Modelled from the spec: \<open>INSERT INTO session\<close> fails when the trainer key names no
  user (foreign key), else appends the row under a fresh key.
\<close>

definition insert_session ::
  "db \<Rightarrow> string \<Rightarrow> string \<Rightarrow> nat \<Rightarrow> string + (result_header \<times> db)" where
  "insert_session d t dt f =
     (if \<not> user_exists d f then Inl ''a foreign key constraint fails''
      else Inr (\<lparr>insertId = auto_session d, affectedRows = 1\<rparr>,
                d\<lparr>tbl_session := tbl_session d @
                     [\<lparr>session_id = auto_session d, session_title = t,
                       session_date = dt, session_formateur_id = f\<rparr>],
                   auto_session := Suc (auto_session d)\<rparr>))"

text \<open>
  Modelled from the spec: \<open>UPDATE session SET ... WHERE id = ?\<close> rewrites the rows
  with that key; it fails when a row would be given a trainer key that names no user.
  The descriptor of an update carries \<open>insertId = 0\<close>.
\<close>

definition update_session ::
  "db \<Rightarrow> string \<Rightarrow> string \<Rightarrow> nat \<Rightarrow> nat \<Rightarrow> string + (result_header \<times> db)" where
  "update_session d t dt f i =
     (if session_exists d i \<and> \<not> user_exists d f then Inl ''a foreign key constraint fails''
      else Inr (\<lparr>insertId = 0,
                 affectedRows = length (filter (\<lambda>s. session_id s = i) (tbl_session d))\<rparr>,
                d\<lparr>tbl_session :=
                     map (\<lambda>s. if session_id s = i
                              then s\<lparr>session_title := t, session_date := dt,
                                     session_formateur_id := f\<rparr>
                              else s) (tbl_session d)\<rparr>))"

text \<open>
  Modelled from the spec: \<open>DELETE FROM session WHERE id = ?\<close> removes the rows with
  that key; it fails when an attendance record still refers to a row it would remove
  (foreign key, no cascade declared in the spec). The descriptor of a delete carries
  \<open>insertId = 0\<close>.
\<close>

definition delete_session :: "db \<Rightarrow> nat \<Rightarrow> string + (result_header \<times> db)" where
  "delete_session d i =
     (if session_exists d i \<and> i \<in> set (map emargement_session_id (tbl_emargement d))
      then Inl ''a foreign key constraint fails''
      else Inr (\<lparr>insertId = 0,
                 affectedRows = length (filter (\<lambda>s. session_id s = i) (tbl_session d))\<rparr>,
                d\<lparr>tbl_session := filter (\<lambda>s. session_id s \<noteq> i) (tbl_session d)\<rparr>))"

text \<open>
  Modelled from the spec: \<open>INSERT INTO emargement\<close> fails when the session key or the
  trainee key names no row (foreign keys), else appends the record under a fresh key.
  No constraint looks at the records already stored for the pair.
\<close>

definition insert_emargement ::
  "db \<Rightarrow> nat \<Rightarrow> nat \<Rightarrow> string + (result_header \<times> db)" where
  "insert_emargement d sid eid =
     (if \<not> session_exists d sid \<or> \<not> user_exists d eid
      then Inl ''a foreign key constraint fails''
      else Inr (\<lparr>insertId = auto_emargement d, affectedRows = 1\<rparr>,
                d\<lparr>tbl_emargement := tbl_emargement d @
                     [\<lparr>emargement_id = auto_emargement d, emargement_session_id = sid,
                       emargement_etudiant_id = eid, emargement_status = ''1''\<rparr>],
                   auto_emargement := Suc (auto_emargement d)\<rparr>))"

text \<open>
  The driver hands a temporal column over as its text when the connection has
  \<open>dateStrings\<close>, and as a \<open>Date\<close> object otherwise.
\<close>

definition deliver_date :: "libs \<Rightarrow> connection \<Rightarrow> string \<Rightarrow> cell" where
  "deliver_date L c s =
     (if dateStrings c then CStr s else CDate (inflate_date L (timezone c) s))"

definition deliver_session :: "libs \<Rightarrow> connection \<Rightarrow> session_row \<Rightarrow> row" where
  "deliver_session L c s =
     [(''id'', CNum (session_id s)), (''title'', CStr (session_title s)),
      (''date'', deliver_date L c (session_date s)),
      (''formateur_id'', CNum (session_formateur_id s))]"

text \<open>\<open>SELECT * FROM session\<close>\<close>

definition select_sessions :: "libs \<Rightarrow> connection \<Rightarrow> db \<Rightarrow> row list" where
  "select_sessions L c d = map (deliver_session L c) (tbl_session d)"

text \<open>\<open>SELECT * FROM session where id = ?\<close>\<close>

definition select_session_by_id :: "libs \<Rightarrow> connection \<Rightarrow> db \<Rightarrow> nat \<Rightarrow> row list" where
  "select_session_by_id L c d i =
     map (deliver_session L c) (filter (\<lambda>s. session_id s = i) (tbl_session d))"

text \<open>
  \<open>SELECT u.name FROM user u INNER JOIN emargement e ON u.id = e.etudiant_id
  WHERE e.session_id = ?\<close>: one row per attendance record of the session and user it
  refers to (the statement asks for no order; the rows come in the order of the
  records).
\<close>

definition select_attendance_names :: "db \<Rightarrow> nat \<Rightarrow> row list" where
  "select_attendance_names d i =
     concat (map (\<lambda>e. map (\<lambda>u. [(''name'', CStr (user_name u))])
                         (filter (\<lambda>u. user_id u = emargement_etudiant_id e) (tbl_user d)))
                 (filter (\<lambda>e. emargement_session_id e = i) (tbl_emargement d)))"


section \<open>Requests and request bodies\<close>

text \<open>
  The parsed bodies, one record per schema of the source; a schema that repeats the
  fields of another extends it, so that \<open>email data\<close> reads the same field in all.
\<close>

record emargement_body =
  email :: string

record login_body = emargement_body +
  password :: string

record user_body = login_body +
  name :: string
  role :: string

record sessions_body = emargement_body +
  title :: string
  date_session :: string

record modif_body =
  newTitle :: string
  newDate_session :: string
  newFormateurName :: string

text \<open>
  A request as the framework delivers it: the bearer token of the authorization
  header if there is one, \<open>parseInt(req.params.id)\<close>, the parsed body, and the
  context the authorization middleware fills in.
\<close>

record 'a request =
  authorization :: "string option"
  params_id :: nat
  req_body :: 'a
  req_user :: "payload option"

text \<open>A schema lists the fields of a body that fail their check.\<close>

definition field :: "string \<Rightarrow> bool \<Rightarrow> string list" where
  "field f ok = (if ok then [] else [f])"

definition userSchema :: "libs \<Rightarrow> user_body \<Rightarrow> string list" where
  "userSchema L b =
     field ''name'' (2 \<le> length (name b)) @
     field ''email'' (zod_email L (email b)) @
     field ''password'' (6 \<le> length (password b)) @
     field ''role'' (role b \<in> {''etudiant'', ''formateur''})"

definition loginSchema :: "libs \<Rightarrow> login_body \<Rightarrow> string list" where
  "loginSchema L b =
     field ''email'' (zod_email L (email b)) @
     field ''password'' (6 \<le> length (password b))"

definition sessionsSchema :: "libs \<Rightarrow> sessions_body \<Rightarrow> string list" where
  "sessionsSchema L b =
     field ''email'' (zod_email L (email b)) @
     field ''title'' (4 \<le> length (title b)) @
     field ''date_session'' (zod_date (date_session b))"

definition modifSessionsSchema :: "modif_body \<Rightarrow> string list" where
  "modifSessionsSchema b =
     field ''newTitle'' (4 \<le> length (newTitle b)) @
     field ''newDate_session'' (zod_date (newDate_session b)) @
     field ''newFormateurName'' (2 \<le> length (newFormateurName b))"

definition emargementSchema :: "libs \<Rightarrow> emargement_body \<Rightarrow> string list" where
  "emargementSchema L b = field ''email'' (zod_email L (email b))"


section \<open>Middleware\<close>

text \<open>
  Modelled from the spec: \<open>validateData\<close> of middleware.js, which is not among the
  sources. Section 1 gives its contract: the payload is accepted, or the request ends
  with the list of field errors. \<open>Inr\<close> is the call of \<open>next()\<close>.
\<close>

definition validateData ::
  "('a \<Rightarrow> string list) \<Rightarrow> 'a request \<Rightarrow> mw_error + 'a request" where
  "validateData schema req =
     (case schema (req_body req) of
        [] \<Rightarrow> Inr req
      | e # es \<Rightarrow> Inl (ValidationError (e # es)))"

text \<open>
  Modelled from the spec: the role check of middleware.js, which is not among the
  sources. Section 4.3: it fails with \<open>Unauthenticated\<close> when no token is present or
  the token fails verification, with \<open>Forbidden\<close> when the verified role is not the
  required one, and else attaches the verified identity and role to the request.
\<close>

definition requireRole ::
  "libs \<Rightarrow> env \<Rightarrow> string \<Rightarrow> 'a request \<Rightarrow> mw_error + 'a request" where
  "requireRole L E r req =
     (case authorization req of
        None \<Rightarrow> Inl Unauthenticated
      | Some token \<Rightarrow>
          (case JWT_KEY E of
             None \<Rightarrow> Inl Unauthenticated
           | Some k \<Rightarrow>
               (case jwt_verify L token k of
                  None \<Rightarrow> Inl Unauthenticated
                | Some p \<Rightarrow>
                    if payload_role p \<noteq> r then Inl Forbidden
                    else Inr (req\<lparr>req_user := Some p\<rparr>))))"

definition checkAuthForm :: "libs \<Rightarrow> env \<Rightarrow> 'a request \<Rightarrow> mw_error + 'a request" where
  "checkAuthForm L E = requireRole L E ''formateur''"

definition checkAuthEtud :: "libs \<Rightarrow> env \<Rightarrow> 'a request \<Rightarrow> mw_error + 'a request" where
  "checkAuthEtud L E = requireRole L E ''etudiant''"


section \<open>Handlers\<close>

text \<open>The reply of every \<open>catch\<close> block: status 500 with the error message.\<close>

definition internal_error :: "string \<Rightarrow> outcome" where
  "internal_error msg = Reply 500 (Obj [(''error'', CStr msg)])"

text \<open>POST /auth/signup. \<open>salt\<close> is the salt \<open>bcrypt.hash\<close> draws.\<close>

definition signup_handler :: "libs \<Rightarrow> string \<Rightarrow> db \<Rightarrow> user_body \<Rightarrow> outcome \<times> db" where
  "signup_handler L salt d data =
     (let hashedPassword = bcrypt_hash L (password data) 10 salt in
      case insert_user d (name data) (email data) hashedPassword (role data) of
        Inl msg \<Rightarrow> (internal_error msg, d)
      | Inr (result, d') \<Rightarrow>
          (Reply 200 (Obj [(''id'', CNum (insertId result)), (''name'', CStr (name data)),
                           (''email'', CStr (email data)), (''role'', CStr (role data))]),
           d'))"

text \<open>
  POST /auth/login. \<open>now\<close> is the issue time \<open>jwt.sign\<close> stamps; \<open>jwt.sign\<close> throws
  on a missing or empty key, and nothing catches it here.
\<close>

definition login_handler :: "libs \<Rightarrow> env \<Rightarrow> nat \<Rightarrow> db \<Rightarrow> login_body \<Rightarrow> outcome" where
  "login_handler L E now d data =
     (case select_user_by_email d (email data) of
        [] \<Rightarrow> Reply 401 (Text ''User not found'')
      | r # rs \<Rightarrow>
          if \<not> bcrypt_compare L (password data) (user_password r)
          then Reply 401 (Text ''Unauthorized'')
          else
            (let payload = \<lparr>payload_id = user_id r, payload_role = user_role r\<rparr> in
             case JWT_KEY E of
               None \<Rightarrow> Unhandled ''secretOrPrivateKey must have a value''
             | Some k \<Rightarrow>
                 if k = [] then Unhandled ''secretOrPrivateKey must have a value''
                 else Reply 200 (Obj [(''token'', CStr (jwt_sign L payload k now))])))"

text \<open>
  POST /sessions. \<open>rows[0].id\<close> sits inside the \<open>try\<close> block: on an empty result it
  raises a \<open>TypeError\<close>, which the \<open>catch\<close> block answers.
\<close>

definition create_session_handler :: "db \<Rightarrow> sessions_body \<Rightarrow> outcome \<times> db" where
  "create_session_handler d data =
     (case select_user_by_email d (email data) of
        [] \<Rightarrow> (internal_error ''Cannot read properties of undefined (reading 'id')'', d)
      | r # rs \<Rightarrow>
          (let id_formateur = user_id r in
           case insert_session d (title data) (date_session data) id_formateur of
             Inl msg \<Rightarrow> (internal_error msg, d)
           | Inr (result, d') \<Rightarrow>
               (Reply 200 (Obj [(''id'', CNum (insertId result)),
                                (''title'', CStr (title data)),
                                (''date'', CStr (date_session data)),
                                (''id_formateur'', CNum id_formateur)]),
                d')))"

text \<open>
  The loop of both GET handlers: every cell that is a \<open>Date\<close> is replaced by the part
  of its ISO text before the \<open>T\<close>; \<open>toISOString\<close> may throw.
\<close>

definition format_cell :: "cell \<Rightarrow> string + cell" where
  "format_cell v =
     (case v of
        CDate t \<Rightarrow> (case toISOString t of
                      Inl msg \<Rightarrow> Inl msg
                    | Inr s \<Rightarrow> Inr (CStr (split_T_0 s)))
      | _ \<Rightarrow> Inr v)"

fun format_row :: "row \<Rightarrow> string + row" where
  "format_row [] = Inr []"
| "format_row ((key, v) # kvs) =
     (case format_cell v of
        Inl msg \<Rightarrow> Inl msg
      | Inr v' \<Rightarrow> (case format_row kvs of
                    Inl msg \<Rightarrow> Inl msg
                  | Inr kvs' \<Rightarrow> Inr ((key, v') # kvs')))"

fun format_rows :: "row list \<Rightarrow> string + row list" where
  "format_rows [] = Inr []"
| "format_rows (r # rs) =
     (case format_row r of
        Inl msg \<Rightarrow> Inl msg
      | Inr r' \<Rightarrow> (case format_rows rs of
                    Inl msg \<Rightarrow> Inl msg
                  | Inr rs' \<Rightarrow> Inr (r' # rs')))"

text \<open>GET /sessions, on the connection made by \<open>connectDb\<close>.\<close>

definition list_sessions_handler :: "libs \<Rightarrow> db \<Rightarrow> outcome" where
  "list_sessions_handler L d =
     (case format_rows (select_sessions L connectDb d) of
        Inl msg \<Rightarrow> Unhandled msg
      | Inr formattedRows \<Rightarrow> Reply 200 (Rows formattedRows))"

text \<open>GET /sessions/:id\<close>

definition get_session_handler :: "libs \<Rightarrow> db \<Rightarrow> nat \<Rightarrow> outcome" where
  "get_session_handler L d i =
     (let rows = select_session_by_id L connectDb d i in
      if rows = [] then Reply 404 (Text ''Session not found'')
      else (case format_rows rows of
              Inl msg \<Rightarrow> Unhandled msg
            | Inr formattedRows \<Rightarrow> Reply 200 (Rows formattedRows)))"

text \<open>PUT /sessions/:id\<close>

definition update_session_handler :: "db \<Rightarrow> nat \<Rightarrow> modif_body \<Rightarrow> outcome \<times> db" where
  "update_session_handler d id_session data =
     (case select_user_by_name d (newFormateurName data) of
        [] \<Rightarrow> (Reply 404 (Text ''User not found''), d)
      | f # fs \<Rightarrow>
          (let id_formateur = user_id f in
           case update_session d (newTitle data) (newDate_session data)
                  id_formateur id_session of
             Inl msg \<Rightarrow> (internal_error msg, d)
           | Inr (result, d') \<Rightarrow>
               (Reply 200 (Obj [(''id'', CNum (insertId result)),
                                (''new_title'', CStr (newTitle data)),
                                (''new_date'', CStr (newDate_session data)),
                                (''new_id_formateur'', CNum id_formateur)]),
                d')))"

text \<open>DELETE /sessions/:id\<close>

definition delete_session_handler :: "db \<Rightarrow> nat \<Rightarrow> outcome \<times> db" where
  "delete_session_handler d id_session =
     (case delete_session d id_session of
        Inl msg \<Rightarrow> (internal_error msg, d)
      | Inr (result, d') \<Rightarrow> (Reply 200 (Obj [(''id'', CNum (insertId result))]), d'))"

text \<open>POST /sessions/:id/emargement\<close>

definition emargement_handler :: "db \<Rightarrow> nat \<Rightarrow> emargement_body \<Rightarrow> outcome \<times> db" where
  "emargement_handler d id_session data =
     (case select_user_by_email d (email data) of
        [] \<Rightarrow> (Reply 404 (Text ''User not found''), d)
      | r # rs \<Rightarrow>
          (let id_etudiant = user_id r in
           case insert_emargement d id_session id_etudiant of
             Inl msg \<Rightarrow> (internal_error msg, d)
           | Inr (result, d') \<Rightarrow>
               (Reply 200 (Obj [(''id'', CNum (insertId result)),
                                (''id_session'', CNum id_session),
                                (''id_etudiant'', CNum id_etudiant),
                                (''status'', CStr ''1'')]),
                d')))"

text \<open>GET /sessions/:id/emargement\<close>

definition list_emargement_handler :: "db \<Rightarrow> nat \<Rightarrow> outcome" where
  "list_emargement_handler d i = Reply 200 (Rows (select_attendance_names d i))"


section \<open>Routes: the middleware chains in the order of the source\<close>

definition signup_route ::
  "libs \<Rightarrow> string \<Rightarrow> db \<Rightarrow> user_body request \<Rightarrow> outcome \<times> db" where
  "signup_route L salt d req =
     (case validateData (userSchema L) req of
        Inl e \<Rightarrow> (Rejected e, d)
      | Inr req1 \<Rightarrow> signup_handler L salt d (req_body req1))"

definition login_route ::
  "libs \<Rightarrow> env \<Rightarrow> nat \<Rightarrow> db \<Rightarrow> login_body request \<Rightarrow> outcome" where
  "login_route L E now d req =
     (case validateData (loginSchema L) req of
        Inl e \<Rightarrow> Rejected e
      | Inr req1 \<Rightarrow> login_handler L E now d (req_body req1))"

definition post_sessions_route ::
  "libs \<Rightarrow> env \<Rightarrow> db \<Rightarrow> sessions_body request \<Rightarrow> outcome \<times> db" where
  "post_sessions_route L E d req =
     (case validateData (sessionsSchema L) req of
        Inl e \<Rightarrow> (Rejected e, d)
      | Inr req1 \<Rightarrow>
          (case checkAuthForm L E req1 of
             Inl e \<Rightarrow> (Rejected e, d)
           | Inr req2 \<Rightarrow> create_session_handler d (req_body req2)))"

definition put_session_route ::
  "libs \<Rightarrow> env \<Rightarrow> db \<Rightarrow> modif_body request \<Rightarrow> outcome \<times> db" where
  "put_session_route L E d req =
     (case checkAuthForm L E req of
        Inl e \<Rightarrow> (Rejected e, d)
      | Inr req1 \<Rightarrow>
          (case validateData modifSessionsSchema req1 of
             Inl e \<Rightarrow> (Rejected e, d)
           | Inr req2 \<Rightarrow> update_session_handler d (params_id req2) (req_body req2)))"

definition delete_session_route ::
  "libs \<Rightarrow> env \<Rightarrow> db \<Rightarrow> unit request \<Rightarrow> outcome \<times> db" where
  "delete_session_route L E d req =
     (case checkAuthForm L E req of
        Inl e \<Rightarrow> (Rejected e, d)
      | Inr req1 \<Rightarrow> delete_session_handler d (params_id req1))"

definition emargement_route ::
  "libs \<Rightarrow> env \<Rightarrow> db \<Rightarrow> emargement_body request \<Rightarrow> outcome \<times> db" where
  "emargement_route L E d req =
     (case checkAuthEtud L E req of
        Inl e \<Rightarrow> (Rejected e, d)
      | Inr req1 \<Rightarrow>
          (case validateData (emargementSchema L) req1 of
             Inl e \<Rightarrow> (Rejected e, d)
           | Inr req2 \<Rightarrow> emargement_handler d (params_id req2) (req_body req2)))"

definition get_emargement_route :: "libs \<Rightarrow> env \<Rightarrow> db \<Rightarrow> unit request \<Rightarrow> outcome" where
  "get_emargement_route L E d req =
     (case checkAuthForm L E req of
        Inl e \<Rightarrow> Rejected e
      | Inr req1 \<Rightarrow> list_emargement_handler d (params_id req1))"


section \<open>The service as a state machine over the store\<close>

text \<open>
  One constructor per route, with the inputs the route consumes besides the store
  (salt, issue time, request).
\<close>

datatype call =
    Signup string "user_body request"
  | Login nat "login_body request"
  | PostSession "sessions_body request"
  | GetSessions
  | GetSession nat
  | PutSession "modif_body request"
  | DeleteSession "unit request"
  | PostEmargement "emargement_body request"
  | GetEmargement "unit request"

fun exec :: "libs \<Rightarrow> env \<Rightarrow> db \<Rightarrow> call \<Rightarrow> outcome \<times> db" where
  "exec L E d (Signup salt req) = signup_route L salt d req"
| "exec L E d (Login now req) = (login_route L E now d req, d)"
| "exec L E d (PostSession req) = post_sessions_route L E d req"
| "exec L E d GetSessions = (list_sessions_handler L d, d)"
| "exec L E d (GetSession i) = (get_session_handler L d i, d)"
| "exec L E d (PutSession req) = put_session_route L E d req"
| "exec L E d (DeleteSession req) = delete_session_route L E d req"
| "exec L E d (PostEmargement req) = emargement_route L E d req"
| "exec L E d (GetEmargement req) = (get_emargement_route L E d req, d)"

fun run :: "libs \<Rightarrow> env \<Rightarrow> db \<Rightarrow> call list \<Rightarrow> db" where
  "run L E d [] = d"
| "run L E d (c # cs) = run L E (snd (exec L E d c)) cs"

definition empty_db :: db where
  "empty_db = \<lparr>tbl_user = [], tbl_session = [], tbl_emargement = [],
               auto_user = 1, auto_session = 1, auto_emargement = 1\<rparr>"


section \<open>Predicates of the properties\<close>

text \<open>Every session key is below the next key the store assigns.\<close>

definition keys_fresh :: "db \<Rightarrow> bool" where
  "keys_fresh d = list_all (\<lambda>s. session_id s < auto_session d) (tbl_session d)"

text \<open>Every stored session date is a calendar-date text.\<close>

definition dates_ymd :: "db \<Rightarrow> bool" where
  "dates_ymd d = list_all (\<lambda>s. is_ymd (session_date s)) (tbl_session d)"

definition is_date_cell :: "cell \<Rightarrow> bool" where
  "is_date_cell v = (case v of CDate t \<Rightarrow> True | _ \<Rightarrow> False)"

definition no_date_cells :: "row list \<Rightarrow> bool" where
  "no_date_cells rows = list_all (list_all (\<lambda>kv. \<not> is_date_cell (snd kv))) rows"

text \<open>The \<open>date\<close> property of a returned row is a calendar-date text.\<close>

definition row_date_ymd :: "row \<Rightarrow> bool" where
  "row_date_ymd r = (case map_of r ''date'' of Some (CStr s) \<Rightarrow> is_ymd s | _ \<Rightarrow> False)"


text \<open>The number of attendance records stored for a (session, trainee) pair.\<close>

definition attendance_count :: "db \<Rightarrow> nat \<Rightarrow> nat \<Rightarrow> nat" where
  "attendance_count d sid eid =
     length (filter (\<lambda>e. emargement_session_id e = sid \<and> emargement_etudiant_id e = eid)
               (tbl_emargement d))"

text \<open>The reply carries a token.\<close>

definition issues_token :: "outcome \<Rightarrow> bool" where
  "issues_token out =
     (case out of Reply st (Obj kvs) \<Rightarrow> map_of kvs ''token'' \<noteq> None | _ \<Rightarrow> False)"


section \<open>A sample instance\<close>

text \<open>
  Stand-ins for the libraries, simple enough to compute with: the hash is the salt,
  a dollar sign and the password; a token is the identity in unary, the role and the
  key, separated by dots; an e-mail address is a text with an at sign; a date text
  inflates to midnight UTC of its day.
\<close>

definition sample_verify :: "string \<Rightarrow> string \<Rightarrow> payload option" where
  "sample_verify tok k =
     (let a = takeWhile (\<lambda>c. c \<noteq> CHR ''.'') tok;
          rest = drop (Suc (length a)) tok;
          r = takeWhile (\<lambda>c. c \<noteq> CHR ''.'') rest;
          sg = drop (Suc (length r)) rest
      in if a \<noteq> [] \<and> sg = k \<and> k \<noteq> [] then Some \<lparr>payload_id = length a, payload_role = r\<rparr>
         else None)"

definition sample_libs :: libs where
  "sample_libs =
     \<lparr>bcrypt_hash = (\<lambda>p rounds salt. salt @ ''$'' @ p),
      bcrypt_compare = (\<lambda>p h. tl (dropWhile (\<lambda>c. c \<noteq> CHR ''$'') h) = p),
      jwt_sign = (\<lambda>pl k now. replicate (payload_id pl) (CHR ''i'') @ ''.'' @
                               payload_role pl @ ''.'' @ k),
      jwt_verify = sample_verify,
      zod_email = (\<lambda>s. CHR ''@'' \<in> set s),
      inflate_date = (\<lambda>tz s. UTCDate (int (num_of (take 4 s))) (num_of (take 2 (drop 5 s)))
                                (num_of (take 2 (drop 8 s))) 0 0 0 0)\<rparr>"

definition sample_env :: env where
  "sample_env = \<lparr>JWT_KEY = Some ''k3y''\<rparr>"

text \<open>
  Two trainees, one trainer and one session; no attendance recorded yet.
\<close>

definition sample_db :: db where
  "sample_db =
     \<lparr>tbl_user =
        [\<lparr>user_id = 1, user_name = ''Ana'', user_email = ''ana@x.com'',
          user_password = ''s1$secret1'', user_role = ''etudiant''\<rparr>,
         \<lparr>user_id = 2, user_name = ''Bob'', user_email = ''bob@x.com'',
          user_password = ''s2$secret2'', user_role = ''etudiant''\<rparr>,
         \<lparr>user_id = 3, user_name = ''Carol'', user_email = ''carol@x.com'',
          user_password = ''s3$secret3'', user_role = ''formateur''\<rparr>],
      tbl_session =
        [\<lparr>session_id = 5, session_title = ''Node basics'', session_date = ''2024-12-09'',
          session_formateur_id = 3\<rparr>],
      tbl_emargement = [],
      auto_user = 4, auto_session = 6, auto_emargement = 1\<rparr>"

text \<open>The tokens the sample login issues to Ana (trainee 1) and to Carol (trainer 3).\<close>

definition ana_token :: string where
  "ana_token = ''i.etudiant.k3y''"

definition carol_token :: string where
  "carol_token = ''iii.formateur.k3y''"


section \<open>Basic facts about the middleware and the store\<close>

lemma requireRole_keeps:
  "requireRole L E r req = Inr req1 \<Longrightarrow>
     params_id req1 = params_id req \<and> req_body req1 = req_body req \<and>
     authorization req1 = authorization req"
  by (auto simp: requireRole_def split: option.splits if_splits)

lemma validateData_keeps: "validateData schema req = Inr req1 \<Longrightarrow> req1 = req"
  by (auto simp: validateData_def split: list.splits)

lemma filter_session_absent:
  "\<not> session_exists d i \<Longrightarrow> filter (\<lambda>s. session_id s = i) (tbl_session d) = []"
  by (auto simp: session_exists_def filter_empty_conv)

lemma filter_session_others:
  "\<not> session_exists d i \<Longrightarrow> filter (\<lambda>s. session_id s \<noteq> i) (tbl_session d) = tbl_session d"
  by (auto simp: session_exists_def filter_id_conv)

lemma delete_session_absent:
  "\<not> session_exists d i \<Longrightarrow>
     delete_session d i = Inr (\<lparr>insertId = 0, affectedRows = 0\<rparr>, d)"
  by (simp add: delete_session_def filter_session_absent filter_session_others)

lemma sample_no_session_7: "\<not> session_exists sample_db 7"
  by (simp add: session_exists_def sample_db_def)

lemma sample_auth_carol:
  "checkAuthForm sample_libs sample_env
     \<lparr>authorization = Some carol_token, params_id = i, req_body = b, req_user = None\<rparr>
   = Inr \<lparr>authorization = Some carol_token, params_id = i, req_body = b,
          req_user = Some \<lparr>payload_id = 3, payload_role = ''formateur''\<rparr>\<rparr>"
  by (simp add: checkAuthForm_def requireRole_def sample_libs_def sample_env_def
      sample_verify_def carol_token_def Let_def)

section \<open>Deleting a session that does not exist\<close>

text \<open>
  Claim C9. DELETE /sessions/:id on an identifier that names no session removes no
  row (the store reports zero affected rows and is left as it was) and the handler
  answers with status 200 and a body holding the field \<open>id\<close>; the value of that
  field is the \<open>insertId\<close> of the result, which is 0 for a delete. The same holds for
  the whole route once the trainer check has let the request through.
\<close>

theorem delete_nonexistent_is_success:
  assumes "\<not> session_exists d i"
  shows "delete_session d i = Inr (\<lparr>insertId = 0, affectedRows = 0\<rparr>, d) \<and>
         delete_session_handler d i = (Reply 200 (Obj [(''id'', CNum 0)]), d) \<and>
         (\<forall>req req1. checkAuthForm L E req = Inr req1 \<and> params_id req = i \<longrightarrow>
            delete_session_route L E d req = (Reply 200 (Obj [(''id'', CNum 0)]), d))"
proof -
  have a: "delete_session d i = Inr (\<lparr>insertId = 0, affectedRows = 0\<rparr>, d)"
    using assms by (rule delete_session_absent)
  have b: "delete_session_handler d i = (Reply 200 (Obj [(''id'', CNum 0)]), d)"
    by (simp add: delete_session_handler_def a)
  have c: "delete_session_route L E d req = (Reply 200 (Obj [(''id'', CNum 0)]), d)"
    if "checkAuthForm L E req = Inr req1" and "params_id req = i" for req req1
    using that b requireRole_keeps [of L E "''formateur''" req req1]
    by (simp add: delete_session_route_def checkAuthForm_def)
  from a b c show ?thesis by blast
qed

theorem delete_nonexistent_is_success_witness:
  "\<not> session_exists sample_db 7 \<and>
   delete_session_handler sample_db 7 = (Reply 200 (Obj [(''id'', CNum 0)]), sample_db) \<and>
   delete_session_route sample_libs sample_env sample_db
     \<lparr>authorization = Some carol_token, params_id = 7, req_body = (), req_user = None\<rparr>
   = (Reply 200 (Obj [(''id'', CNum 0)]), sample_db)"
proof -
  let ?req = "\<lparr>authorization = Some carol_token, params_id = 7, req_body = (),
               req_user = None\<rparr>"
  have auth: "checkAuthForm sample_libs sample_env ?req =
      Inr (?req\<lparr>req_user := Some \<lparr>payload_id = 3, payload_role = ''formateur''\<rparr>\<rparr>)"
    by (simp add: sample_auth_carol)
  have id7: "params_id ?req = 7" by simp
  from delete_nonexistent_is_success [OF sample_no_session_7, of sample_libs sample_env]
    auth id7 sample_no_session_7
  show ?thesis by blast
qed

section \<open>The date loops of the GET handlers under the configured connection\<close>

lemma format_cell_no_date: "\<not> is_date_cell v \<Longrightarrow> format_cell v = Inr v"
  by (cases v) (simp_all add: format_cell_def is_date_cell_def)

lemma format_row_no_date:
  "list_all (\<lambda>kv. \<not> is_date_cell (snd kv)) r \<Longrightarrow> format_row r = Inr r"
proof (induction r)
  case Nil
  show ?case by simp
next
  case (Cons kv kvs)
  obtain k v where kv: "kv = (k, v)" by (cases kv)
  from Cons.prems kv have "format_cell v = Inr v" by (simp add: format_cell_no_date)
  moreover from Cons have "format_row kvs = Inr kvs" by simp
  ultimately show ?case by (simp add: kv)
qed

lemma format_rows_no_date: "no_date_cells rows \<Longrightarrow> format_rows rows = Inr rows"
  by (induction rows) (simp_all add: no_date_cells_def format_row_no_date)

lemma deliver_session_no_date:
  "list_all (\<lambda>kv. \<not> is_date_cell (snd kv)) (deliver_session L connectDb s)"
  by (simp add: deliver_session_def deliver_date_def connectDb_def is_date_cell_def)

lemma delivered_rows_no_date: "no_date_cells (map (deliver_session L connectDb) ss)"
  by (induction ss) (simp_all add: no_date_cells_def deliver_session_no_date)

lemma select_sessions_no_date: "no_date_cells (select_sessions L connectDb d)"
  unfolding select_sessions_def by (rule delivered_rows_no_date)

lemma select_session_by_id_no_date: "no_date_cells (select_session_by_id L connectDb d i)"
  unfolding select_session_by_id_def by (rule delivered_rows_no_date)

lemma list_sessions_handler_rows:
  "list_sessions_handler L d = Reply 200 (Rows (select_sessions L connectDb d))"
  by (simp add: list_sessions_handler_def format_rows_no_date [OF select_sessions_no_date])

lemma get_session_handler_rows:
  "get_session_handler L d i =
     (if select_session_by_id L connectDb d i = [] then Reply 404 (Text ''Session not found'')
      else Reply 200 (Rows (select_session_by_id L connectDb d i)))"
  by (simp add: get_session_handler_def Let_def
      format_rows_no_date [OF select_session_by_id_no_date])

text \<open>
  Claim C10. The connection is made with \<open>dateStrings: true\<close>, so the rows of both
  session queries hold no \<open>Date\<close> cell; the formatting loop of either GET handler
  then returns its rows as they are, and the handlers reply with exactly the rows the
  store delivered (GET /sessions/:id with 404 when there is none).
\<close>

theorem date_loops_are_identity:
  "no_date_cells (select_sessions L connectDb d) \<and>
   no_date_cells (select_session_by_id L connectDb d i) \<and>
   format_rows (select_sessions L connectDb d) = Inr (select_sessions L connectDb d) \<and>
   format_rows (select_session_by_id L connectDb d i) =
     Inr (select_session_by_id L connectDb d i) \<and>
   list_sessions_handler L d = Reply 200 (Rows (select_sessions L connectDb d)) \<and>
   get_session_handler L d i =
     (if select_session_by_id L connectDb d i = [] then Reply 404 (Text ''Session not found'')
      else Reply 200 (Rows (select_session_by_id L connectDb d i)))"
proof -
  have a: "no_date_cells (select_sessions L connectDb d)"
    by (rule select_sessions_no_date)
  have b: "no_date_cells (select_session_by_id L connectDb d i)"
    by (rule select_session_by_id_no_date)
  from a have fa: "format_rows (select_sessions L connectDb d) =
      Inr (select_sessions L connectDb d)"
    by (rule format_rows_no_date)
  from b have fb: "format_rows (select_session_by_id L connectDb d i) =
      Inr (select_session_by_id L connectDb d i)"
    by (rule format_rows_no_date)
  from a b fa fb list_sessions_handler_rows [of L d] get_session_handler_rows [of L d i]
  show ?thesis by (simp only: simp_thms)
qed

text \<open>
  The loop is not the identity on a connection without \<open>dateStrings\<close>: there the
  driver delivers a \<open>Date\<close>, which the loop turns into text.
\<close>

lemma date_loop_without_dateStrings:
  "format_rows (select_sessions sample_libs \<lparr>timezone = ''+01:00'', dateStrings = False\<rparr>
      sample_db) =
   Inr [[(''id'', CNum 5), (''title'', CStr ''Node basics''),
         (''date'', CStr ''2024-12-09''), (''formateur_id'', CNum 3)]]"
  by (simp add: select_sessions_def deliver_session_def deliver_date_def sample_db_def
      sample_libs_def format_cell_def num_of_def digit_val_def iso_year_def pad4_def pad2_def
      pad3_def digit_def split_T_0_def)

section \<open>Updating a session that does not exist\<close>

lemma update_session_absent:
  "\<not> session_exists d i \<Longrightarrow>
     update_session d t dt f i = Inr (\<lparr>insertId = 0, affectedRows = 0\<rparr>, d)"
proof -
  assume a: "\<not> session_exists d i"
  then have "map (\<lambda>s. if session_id s = i
                 then s\<lparr>session_title := t, session_date := dt, session_formateur_id := f\<rparr>
                 else s) (tbl_session d) = tbl_session d"
    by (intro map_idI) (auto simp: session_exists_def)
  with a show ?thesis
    by (simp add: update_session_def filter_session_absent)
qed

text \<open>
  Whenever the trainer name resolves, PUT /sessions/:id on an identifier that names
  no session changes nothing and still answers 200, with \<open>id\<close> 0.
\<close>

lemma update_handler_absent_session:
  assumes "select_user_by_name d (newFormateurName data) = f # fs"
      and "\<not> session_exists d i"
  shows "update_session_handler d i data =
           (Reply 200 (Obj [(''id'', CNum 0), (''new_title'', CStr (newTitle data)),
                            (''new_date'', CStr (newDate_session data)),
                            (''new_id_formateur'', CNum (user_id f))]), d)"
  using assms by (simp add: update_session_handler_def update_session_absent)

lemma sample_validate_modif:
  "modifSessionsSchema
     \<lparr>newTitle = ''Express'', newDate_session = ''2025-01-15'', newFormateurName = ''Carol''\<rparr>
   = []"
  by (simp add: modifSessionsSchema_def field_def zod_date_def is_ymd_def is_digit_def
      num_of_def digit_val_def days_in_month_def leap_year_def Let_def)

text \<open>
  Claim C1, at a request the service can receive: the trainer Carol, with her token,
  puts new values for session 7 into a store that holds only session 5. The route
  answers 200 and leaves the store as it was; it does not answer 404.
\<close>

theorem update_nonexistent_reports_success:
  "\<not> session_exists sample_db 7 \<and>
   put_session_route sample_libs sample_env sample_db
     \<lparr>authorization = Some carol_token, params_id = 7,
      req_body = \<lparr>newTitle = ''Express'', newDate_session = ''2025-01-15'',
                  newFormateurName = ''Carol''\<rparr>,
      req_user = None\<rparr>
   = (Reply 200 (Obj [(''id'', CNum 0), (''new_title'', CStr ''Express''),
                      (''new_date'', CStr ''2025-01-15''), (''new_id_formateur'', CNum 3)]),
      sample_db)"
proof -
  have carol: "select_user_by_name sample_db ''Carol'' =
      [\<lparr>user_id = 3, user_name = ''Carol'', user_email = ''carol@x.com'',
        user_password = ''s3$secret3'', user_role = ''formateur''\<rparr>]"
    by (simp add: select_user_by_name_def sample_db_def)
  show ?thesis
    using update_handler_absent_session [OF _ sample_no_session_7,
        of "\<lparr>newTitle = ''Express'', newDate_session = ''2025-01-15'',
             newFormateurName = ''Carol''\<rparr>"] carol
    by (simp add: put_session_route_def sample_auth_carol validateData_def
        sample_validate_modif sample_no_session_7)
qed


section \<open>Creating a session for an unknown trainer e-mail\<close>

text \<open>
  Whenever the e-mail resolves to no user, the handler of POST /sessions answers 500
  with the message of the \<open>TypeError\<close> and leaves the store as it was.
\<close>

lemma create_session_unknown_email:
  "select_user_by_email d (email data) = [] \<Longrightarrow>
     create_session_handler d data =
       (Reply 500 (Obj [(''error'',
          CStr ''Cannot read properties of undefined (reading 'id')'')]), d)"
  by (simp add: create_session_handler_def internal_error_def)

lemma sample_validate_session:
  "sessionsSchema sample_libs
     \<lparr>email = ''nobody@x.com'', title = ''Express'', date_session = ''2025-01-15''\<rparr> = []"
  by (simp add: sessionsSchema_def field_def zod_date_def is_ymd_def is_digit_def
      num_of_def digit_val_def days_in_month_def leap_year_def Let_def sample_libs_def)

text \<open>
  Claim C2, at a request the service can receive: the trainer Carol, with her token,
  posts a well-formed session whose e-mail belongs to no user. The route answers 500,
  not 404; the handlers of PUT /sessions/:id and of POST /sessions/:id/emargement
  answer 404 in the same situation.
\<close>

theorem create_session_unknown_trainer_is_500:
  "select_user_by_email sample_db ''nobody@x.com'' = [] \<and>
   post_sessions_route sample_libs sample_env sample_db
     \<lparr>authorization = Some carol_token, params_id = 0,
      req_body = \<lparr>email = ''nobody@x.com'', title = ''Express'',
                  date_session = ''2025-01-15''\<rparr>,
      req_user = None\<rparr>
   = (Reply 500 (Obj [(''error'',
        CStr ''Cannot read properties of undefined (reading 'id')'')]), sample_db)"
proof -
  have nobody: "select_user_by_email sample_db ''nobody@x.com'' = []"
    by (simp add: select_user_by_email_def sample_db_def)
  show ?thesis
    using create_session_unknown_email [of sample_db
        "\<lparr>email = ''nobody@x.com'', title = ''Express'', date_session = ''2025-01-15''\<rparr>"]
      nobody
    by (simp add: post_sessions_route_def sample_auth_carol validateData_def
        sample_validate_session)
qed

lemma sibling_handlers_answer_404:
  "select_user_by_name d (newFormateurName m) = [] \<Longrightarrow>
     update_session_handler d i m = (Reply 404 (Text ''User not found''), d)"
  "select_user_by_email d (email e) = [] \<Longrightarrow>
     emargement_handler d i e = (Reply 404 (Text ''User not found''), d)"
  by (simp_all add: update_session_handler_def emargement_handler_def)

section \<open>The order of the role check and of body validation\<close>

text \<open>
  PUT /sessions/:id and POST /sessions/:id/emargement run the role check first: a
  request the check refuses ends with its error, whatever its body.
\<close>

lemma put_session_auth_first:
  "checkAuthForm L E req = Inl e \<Longrightarrow> put_session_route L E d req = (Rejected e, d)"
  by (simp add: put_session_route_def)

lemma emargement_auth_first:
  "checkAuthEtud L E req = Inl e \<Longrightarrow> emargement_route L E d req = (Rejected e, d)"
  by (simp add: emargement_route_def)

lemma requireRole_errors:
  "requireRole L E r req = Inl e \<Longrightarrow> e = Unauthenticated \<or> e = Forbidden"
  by (auto simp: requireRole_def split: option.splits if_splits)

text \<open>
  POST /sessions validates the body first: a body the schema refuses ends with the
  field errors, whatever the credential.
\<close>

lemma post_sessions_validation_first:
  "sessionsSchema L (req_body req) = f # fs \<Longrightarrow>
     post_sessions_route L E d req = (Rejected (ValidationError (f # fs)), d)"
  by (simp add: post_sessions_route_def validateData_def)

text \<open>
  Claim C8, at a request the service can receive: a caller without any credential
  posts a session whose title is too short and whose date is not a day of the
  calendar. The role check would refuse the request as unauthenticated, yet the route
  answers with the two field errors.
\<close>

theorem post_sessions_validates_before_auth:
  "checkAuthForm sample_libs sample_env
     \<lparr>authorization = None, params_id = 0,
      req_body = \<lparr>email = ''carol@x.com'', title = ''abc'', date_session = ''2024-02-30''\<rparr>,
      req_user = None\<rparr> = Inl Unauthenticated \<and>
   post_sessions_route sample_libs sample_env sample_db
     \<lparr>authorization = None, params_id = 0,
      req_body = \<lparr>email = ''carol@x.com'', title = ''abc'', date_session = ''2024-02-30''\<rparr>,
      req_user = None\<rparr>
   = (Rejected (ValidationError [''title'', ''date_session'']), sample_db)"
proof -
  have bad: "sessionsSchema sample_libs
      \<lparr>email = ''carol@x.com'', title = ''abc'', date_session = ''2024-02-30''\<rparr>
      = [''title'', ''date_session'']"
    by (simp add: sessionsSchema_def field_def zod_date_def is_ymd_def is_digit_def
        num_of_def digit_val_def days_in_month_def leap_year_def Let_def sample_libs_def)
  show ?thesis
    using post_sessions_validation_first [of sample_libs _ "''title''" "[''date_session'']"]
    by (simp add: bad checkAuthForm_def requireRole_def)
qed

section \<open>Login failures\<close>

lemma login_route_cases:
  "login_route L E now d req =
     (case loginSchema L (req_body req) of
        [] \<Rightarrow> login_handler L E now d (req_body req)
      | f # fs \<Rightarrow> Rejected (ValidationError (f # fs)))"
  by (simp add: login_route_def validateData_def split: list.splits)

text \<open>
  Claim C5. When the e-mail of a login matches no stored user, or when it matches
  and the password does not verify against the hash of the first matching row, the
  handler of POST /auth/login answers 401 (with the text \<open>User not found\<close>,
  respectively \<open>Unauthorized\<close>) and its reply carries no token. The route as a whole
  issues no token in these cases either, and answers with the handler's 401 for every
  body that passes the login schema.
\<close>

theorem login_failures_are_401:
  assumes "rows = select_user_by_email d (email data)"
      and "rows = [] \<or> \<not> bcrypt_compare L (password data) (user_password (hd rows))"
  shows "login_handler L E now d data =
           Reply 401 (Text (if rows = [] then ''User not found'' else ''Unauthorized'')) \<and>
         \<not> issues_token (login_handler L E now d data) \<and>
         (\<forall>req. req_body req = data \<longrightarrow>
            \<not> issues_token (login_route L E now d req) \<and>
            (loginSchema L data = [] \<longrightarrow>
               login_route L E now d req = login_handler L E now d data))"
proof -
  have h: "login_handler L E now d data =
      Reply 401 (Text (if rows = [] then ''User not found'' else ''Unauthorized''))"
  proof (cases rows)
    case Nil
    with assms(1) show ?thesis by (simp add: login_handler_def)
  next
    case (Cons r rs)
    from Cons assms(1) have sel: "select_user_by_email d (email data) = r # rs"
      by simp
    from Cons assms(2) have bad: "\<not> bcrypt_compare L (password data) (user_password r)"
      by simp
    from Cons show ?thesis by (simp add: login_handler_def sel bad)
  qed
  then have t: "\<not> issues_token (login_handler L E now d data)"
    by (simp add: issues_token_def)
  have r: "\<not> issues_token (login_route L E now d req) \<and>
      (loginSchema L data = [] \<longrightarrow> login_route L E now d req = login_handler L E now d data)"
    if "req_body req = data" for req
    using that t by (simp add: login_route_cases issues_token_def split: list.splits)
  from h t r show ?thesis by blast
qed

theorem login_failures_are_401_witness:
  "select_user_by_email sample_db ''nobody@x.com'' = [] \<and>
   login_route sample_libs sample_env 0 sample_db
     \<lparr>authorization = None, params_id = 0,
      req_body = \<lparr>email = ''nobody@x.com'', password = ''secret1''\<rparr>, req_user = None\<rparr>
   = Reply 401 (Text ''User not found'') \<and>
   select_user_by_email sample_db ''carol@x.com'' \<noteq> [] \<and>
   \<not> bcrypt_compare sample_libs ''secret1''
       (user_password (hd (select_user_by_email sample_db ''carol@x.com''))) \<and>
   login_route sample_libs sample_env 0 sample_db
     \<lparr>authorization = None, params_id = 0,
      req_body = \<lparr>email = ''carol@x.com'', password = ''secret1''\<rparr>, req_user = None\<rparr>
   = Reply 401 (Text ''Unauthorized'')"
proof -
  let ?nobody = "\<lparr>email = ''nobody@x.com'', password = ''secret1''\<rparr>"
  let ?carol = "\<lparr>email = ''carol@x.com'', password = ''secret1''\<rparr>"
  have n: "select_user_by_email sample_db ''nobody@x.com'' = []"
    by (simp add: select_user_by_email_def sample_db_def)
  have c: "select_user_by_email sample_db ''carol@x.com'' =
      [\<lparr>user_id = 3, user_name = ''Carol'', user_email = ''carol@x.com'',
        user_password = ''s3$secret3'', user_role = ''formateur''\<rparr>]"
    by (simp add: select_user_by_email_def sample_db_def)
  have w: "\<not> bcrypt_compare sample_libs ''secret1''
       (user_password (hd (select_user_by_email sample_db ''carol@x.com'')))"
    by (simp add: c sample_libs_def)
  have v1: "loginSchema sample_libs ?nobody = []" and v2: "loginSchema sample_libs ?carol = []"
    by (simp_all add: loginSchema_def field_def sample_libs_def)
  have a: "login_route sample_libs sample_env 0 sample_db
     \<lparr>authorization = None, params_id = 0, req_body = ?nobody, req_user = None\<rparr>
     = Reply 401 (Text ''User not found'')"
    using login_failures_are_401 [of "[]" sample_db ?nobody sample_libs sample_env 0] n v1
    by simp
  have b: "login_route sample_libs sample_env 0 sample_db
     \<lparr>authorization = None, params_id = 0, req_body = ?carol, req_user = None\<rparr>
     = Reply 401 (Text ''Unauthorized'')"
    using login_failures_are_401 [of "select_user_by_email sample_db ''carol@x.com''"
        sample_db ?carol sample_libs sample_env 0] w v2 c
    by simp
  from n a c w b show ?thesis by simp
qed

section \<open>Signup, then login\<close>

lemma insert_user_result:
  assumes "insert_user d n e p r = Inr (res, d')"
  shows "insertId res = auto_user d"
    and "select_user_by_email d' e =
           [\<lparr>user_id = auto_user d, user_name = n, user_email = e,
             user_password = p, user_role = r\<rparr>]"
  using assms by (auto simp: insert_user_def select_user_by_email_def split: if_splits)

lemma insert_user_keeps_others:
  assumes "insert_user d n e p r = Inr (res, d')" and "select_user_by_email d e' \<noteq> []"
  shows "select_user_by_email d' e' = select_user_by_email d e'"
  using assms by (auto simp: insert_user_def select_user_by_email_def split: if_splits)

text \<open>Only the signup route writes to the user table.\<close>

lemma signup_route_keeps_user:
  "select_user_by_email d e \<noteq> [] \<Longrightarrow>
     select_user_by_email (snd (signup_route L salt d req)) e = select_user_by_email d e"
  by (auto simp: signup_route_def signup_handler_def Let_def insert_user_keeps_others
      split: sum.splits)

lemma post_sessions_route_users:
  "tbl_user (snd (post_sessions_route L E d req)) = tbl_user d"
  by (auto simp: post_sessions_route_def create_session_handler_def insert_session_def
      Let_def split: sum.splits list.splits if_splits)

lemma put_session_route_users:
  "tbl_user (snd (put_session_route L E d req)) = tbl_user d"
  by (auto simp: put_session_route_def update_session_handler_def update_session_def
      Let_def split: sum.splits list.splits if_splits)

lemma delete_session_route_users:
  "tbl_user (snd (delete_session_route L E d req)) = tbl_user d"
  by (auto simp: delete_session_route_def delete_session_handler_def delete_session_def
      split: sum.splits if_splits)

lemma emargement_route_users:
  "tbl_user (snd (emargement_route L E d req)) = tbl_user d"
  by (auto simp: emargement_route_def emargement_handler_def insert_emargement_def
      Let_def split: sum.splits list.splits if_splits)

lemma select_user_cong:
  "tbl_user d' = tbl_user d \<Longrightarrow> select_user_by_email d' e = select_user_by_email d e"
  by (simp add: select_user_by_email_def)

lemma exec_keeps_user:
  "select_user_by_email d e \<noteq> [] \<Longrightarrow>
     select_user_by_email (snd (exec L E d c)) e = select_user_by_email d e"
proof (cases c)
  case (Signup salt req)
  assume "select_user_by_email d e \<noteq> []"
  with Signup show ?thesis by (simp add: signup_route_keeps_user)
next
  case (PostSession req)
  then show ?thesis by (simp add: select_user_cong [OF post_sessions_route_users])
next
  case (PutSession req)
  then show ?thesis by (simp add: select_user_cong [OF put_session_route_users])
next
  case (DeleteSession req)
  then show ?thesis by (simp add: select_user_cong [OF delete_session_route_users])
next
  case (PostEmargement req)
  then show ?thesis by (simp add: select_user_cong [OF emargement_route_users])
qed simp_all

lemma run_keeps_user:
  "select_user_by_email d e \<noteq> [] \<Longrightarrow>
     select_user_by_email (run L E d cs) e = select_user_by_email d e"
proof (induction cs arbitrary: d)
  case Nil
  show ?case by simp
next
  case (Cons c cs)
  from Cons.prems have "select_user_by_email (snd (exec L E d c)) e = select_user_by_email d e"
    by (rule exec_keeps_user)
  with Cons show ?case by simp
qed

lemma login_handler_success:
  assumes "select_user_by_email d (email data) = [u]"
      and "bcrypt_compare L (password data) (user_password u)"
      and "JWT_KEY E = Some k" and "k \<noteq> []"
  shows "login_handler L E now d data =
           Reply 200 (Obj [(''token'',
             CStr (jwt_sign L \<lparr>payload_id = user_id u, payload_role = user_role u\<rparr> k now))])"
  using assms by (simp add: login_handler_def)

text \<open>
  Claim C6. Let the signup route accept a request (status 200), and let
  \<open>bcrypt.compare\<close> verify the password against the hash \<open>bcrypt.hash\<close> made of it at
  signup; let the signing key be set. Then the reply of the signup carries the
  identifier the store assigned, and a login with the same e-mail and password, right
  away or after any further requests to the service, answers 200 with the token that
  \<open>jwt.sign\<close> makes of the payload with exactly that identifier and the role given at
  signup.
\<close>

theorem signup_then_login:
  assumes "signup_route L salt d req = (Reply 200 b, d')"
      and "bcrypt_compare L (password (req_body req))
             (bcrypt_hash L (password (req_body req)) 10 salt)"
      and "JWT_KEY E = Some k" and "k \<noteq> []"
      and "email (req_body req') = email (req_body req)"
      and "password (req_body req') = password (req_body req)"
  shows "\<exists>uid.
           b = Obj [(''id'', CNum uid), (''name'', CStr (name (req_body req))),
                    (''email'', CStr (email (req_body req))),
                    (''role'', CStr (role (req_body req)))] \<and>
           login_route L E now (run L E d' cs) req' =
             Reply 200 (Obj [(''token'',
               CStr (jwt_sign L \<lparr>payload_id = uid, payload_role = role (req_body req)\<rparr>
                       k now))])"
proof -
  let ?data = "req_body req"
  let ?hash = "bcrypt_hash L (password ?data) 10 salt"
  let ?u = "\<lparr>user_id = auto_user d, user_name = name ?data, user_email = email ?data,
             user_password = ?hash, user_role = role ?data\<rparr>"
  from assms(1) have valid: "userSchema L ?data = []"
    by (auto simp: signup_route_def validateData_def split: list.splits)
  with assms(1) have h: "signup_handler L salt d ?data = (Reply 200 b, d')"
    by (simp add: signup_route_def validateData_def)
  then obtain res where ins:
    "insert_user d (name ?data) (email ?data) ?hash (role ?data) = Inr (res, d')"
    and b: "b = Obj [(''id'', CNum (insertId res)), (''name'', CStr (name ?data)),
                     (''email'', CStr (email ?data)), (''role'', CStr (role ?data))]"
    by (auto simp: signup_handler_def Let_def internal_error_def split: sum.splits)
  note insert_user_result [OF ins]
  then have uid: "insertId res = auto_user d"
    and sel: "select_user_by_email d' (email ?data) = [?u]"
    by simp_all
  from sel have "select_user_by_email (run L E d' cs) (email ?data) = [?u]"
    using run_keeps_user [of d' "email ?data" L E cs] by simp
  with assms(5) have sel': "select_user_by_email (run L E d' cs) (email (req_body req')) = [?u]"
    by simp
  from assms(2,6) have cmp: "bcrypt_compare L (password (req_body req')) (user_password ?u)"
    by simp
  from valid have "zod_email L (email ?data)" and "6 \<le> length (password ?data)"
    by (auto simp: userSchema_def field_def split: if_splits)
  with assms(5,6) have valid': "loginSchema L (req_body req') = []"
    by (simp add: loginSchema_def field_def)
  have "login_route L E now (run L E d' cs) req' =
      login_handler L E now (run L E d' cs) (req_body req')"
    by (simp add: login_route_def validateData_def valid')
  also have "\<dots> = Reply 200 (Obj [(''token'',
      CStr (jwt_sign L \<lparr>payload_id = user_id ?u, payload_role = user_role ?u\<rparr> k now))])"
    using sel' cmp assms(3,4) by (rule login_handler_success)
  finally show ?thesis using b uid by simp
qed


theorem signup_then_login_witness:
  "signup_route sample_libs ''s4'' sample_db
     \<lparr>authorization = None, params_id = 0,
      req_body = \<lparr>email = ''dan@x.com'', password = ''secret4'', name = ''Dan'',
                  role = ''etudiant''\<rparr>,
      req_user = None\<rparr>
   = (Reply 200 (Obj [(''id'', CNum 4), (''name'', CStr ''Dan''),
                      (''email'', CStr ''dan@x.com''), (''role'', CStr ''etudiant'')]),
      sample_db\<lparr>tbl_user := tbl_user sample_db @
                   [\<lparr>user_id = 4, user_name = ''Dan'', user_email = ''dan@x.com'',
                     user_password = ''s4$secret4'', user_role = ''etudiant''\<rparr>],
                 auto_user := 5\<rparr>) \<and>
   bcrypt_compare sample_libs ''secret4'' (bcrypt_hash sample_libs ''secret4'' 10 ''s4'') \<and>
   JWT_KEY sample_env = Some ''k3y'' \<and>
   login_route sample_libs sample_env 0
     (run sample_libs sample_env
        (sample_db\<lparr>tbl_user := tbl_user sample_db @
                     [\<lparr>user_id = 4, user_name = ''Dan'', user_email = ''dan@x.com'',
                       user_password = ''s4$secret4'', user_role = ''etudiant''\<rparr>],
                   auto_user := 5\<rparr>)
        [GetSessions, GetSession 5])
     \<lparr>authorization = None, params_id = 0,
      req_body = \<lparr>email = ''dan@x.com'', password = ''secret4''\<rparr>, req_user = None\<rparr>
   = Reply 200 (Obj [(''token'', CStr ''iiii.etudiant.k3y'')])"
proof -
  let ?req = "\<lparr>authorization = None, params_id = 0,
      req_body = \<lparr>email = ''dan@x.com'', password = ''secret4'', name = ''Dan'',
                  role = ''etudiant''\<rparr>,
      req_user = None\<rparr>"
  let ?req' = "\<lparr>authorization = None, params_id = 0,
      req_body = \<lparr>email = ''dan@x.com'', password = ''secret4''\<rparr>, req_user = None\<rparr>"
  let ?b = "Obj [(''id'', CNum 4), (''name'', CStr ''Dan''),
                 (''email'', CStr ''dan@x.com''), (''role'', CStr ''etudiant'')]"
  let ?d' = "sample_db\<lparr>tbl_user := tbl_user sample_db @
                   [\<lparr>user_id = 4, user_name = ''Dan'', user_email = ''dan@x.com'',
                     user_password = ''s4$secret4'', user_role = ''etudiant''\<rparr>],
                 auto_user := 5\<rparr>"
  have s: "signup_route sample_libs ''s4'' sample_db ?req = (Reply 200 ?b, ?d')"
    by (simp add: signup_route_def validateData_def userSchema_def field_def
        signup_handler_def insert_user_def select_user_by_email_def sample_db_def
        sample_libs_def Let_def)
  have c: "bcrypt_compare sample_libs (password (req_body ?req))
      (bcrypt_hash sample_libs (password (req_body ?req)) 10 ''s4'')"
    by (simp add: sample_libs_def)
  have k: "JWT_KEY sample_env = Some ''k3y''" and k': "''k3y'' \<noteq> []"
    by (simp_all add: sample_env_def)
  have e: "email (req_body ?req') = email (req_body ?req)"
    and p: "password (req_body ?req') = password (req_body ?req)"
    by simp_all
  have tok: "jwt_sign sample_libs \<lparr>payload_id = 4, payload_role = ''etudiant''\<rparr> ''k3y'' 0
      = ''iiii.etudiant.k3y''"
    by (simp add: sample_libs_def eval_nat_numeral)
  from signup_then_login [OF s c k k' e p, of 0 "[GetSessions, GetSession 5]"] tok
  have "login_route sample_libs sample_env 0
      (run sample_libs sample_env ?d' [GetSessions, GetSession 5]) ?req'
      = Reply 200 (Obj [(''token'', CStr ''iiii.etudiant.k3y'')])"
    by simp
  with s c k show ?thesis by simp
qed

section \<open>Recording attendance\<close>

lemma insert_emargement_cases:
  "insert_emargement d sid eid = Inr (res, d') \<longleftrightarrow>
     session_exists d sid \<and> user_exists d eid \<and>
     res = \<lparr>insertId = auto_emargement d, affectedRows = 1\<rparr> \<and>
     d' = d\<lparr>tbl_emargement := tbl_emargement d @
               [\<lparr>emargement_id = auto_emargement d, emargement_session_id = sid,
                 emargement_etudiant_id = eid, emargement_status = ''1''\<rparr>],
             auto_emargement := Suc (auto_emargement d)\<rparr>"
  by (auto simp: insert_emargement_def)

text \<open>
  What a successful call of the handler did: the e-mail of the body resolved, and one
  record for the session of the path and the first user with that e-mail was appended.
\<close>

lemma emargement_handler_success:
  assumes "emargement_handler d sid data = (Reply 200 b, d')"
  shows "\<exists>r rs. select_user_by_email d (email data) = r # rs \<and>
           session_exists d sid \<and> user_exists d (user_id r) \<and>
           b = Obj [(''id'', CNum (auto_emargement d)), (''id_session'', CNum sid),
                    (''id_etudiant'', CNum (user_id r)), (''status'', CStr ''1'')] \<and>
           d' = d\<lparr>tbl_emargement := tbl_emargement d @
                     [\<lparr>emargement_id = auto_emargement d, emargement_session_id = sid,
                       emargement_etudiant_id = user_id r, emargement_status = ''1''\<rparr>],
                   auto_emargement := Suc (auto_emargement d)\<rparr>"
proof (cases "select_user_by_email d (email data)")
  case Nil
  with assms show ?thesis by (simp add: emargement_handler_def)
next
  case (Cons r rs)
  show ?thesis
  proof (cases "insert_emargement d sid (user_id r)")
    case (Inl msg)
    with assms Cons show ?thesis
      by (simp add: emargement_handler_def internal_error_def Let_def)
  next
    case (Inr p)
    obtain res d1 where p: "p = (res, d1)" by (cases p)
    from Inr p have ins: "insert_emargement d sid (user_id r) = Inr (res, d1)" by simp
    with assms Cons have "d' = d1"
      and "b = Obj [(''id'', CNum (insertId res)), (''id_session'', CNum sid),
                    (''id_etudiant'', CNum (user_id r)), (''status'', CStr ''1'')]"
      by (simp_all add: emargement_handler_def Let_def)
    with ins Cons show ?thesis by (simp add: insert_emargement_cases)
  qed
qed

lemma emargement_handler_ok:
  assumes "select_user_by_email d (email data) = r # rs" and "session_exists d sid"
      and "user_exists d (user_id r)"
  shows "emargement_handler d sid data =
           (Reply 200 (Obj [(''id'', CNum (auto_emargement d)), (''id_session'', CNum sid),
                            (''id_etudiant'', CNum (user_id r)), (''status'', CStr ''1'')]),
            d\<lparr>tbl_emargement := tbl_emargement d @
                [\<lparr>emargement_id = auto_emargement d, emargement_session_id = sid,
                  emargement_etudiant_id = user_id r, emargement_status = ''1''\<rparr>],
              auto_emargement := Suc (auto_emargement d)\<rparr>)"
  using assms by (simp add: emargement_handler_def insert_emargement_def Let_def)

lemma emargement_route_cases:
  "emargement_route L E d req = (Reply st b, d') \<Longrightarrow>
     (\<exists>req1. checkAuthEtud L E req = Inr req1) \<and>
     emargementSchema L (req_body req) = [] \<and>
     emargement_handler d (params_id req) (req_body req) = (Reply st b, d')"
  by (auto simp: emargement_route_def validateData_def checkAuthEtud_def
      dest: requireRole_keeps split: sum.splits list.splits)

lemma emargement_route_passes:
  "checkAuthEtud L E req = Inr req1 \<Longrightarrow> emargementSchema L (req_body req) = [] \<Longrightarrow>
     emargement_route L E d req = emargement_handler d (params_id req) (req_body req)"
  by (auto simp: emargement_route_def validateData_def checkAuthEtud_def
      dest: requireRole_keeps split: sum.splits list.splits)

text \<open>
  Claim C3. Nothing enforces one attendance record per (session, trainee): when a
  call of POST /sessions/:id/emargement has succeeded, the same request sent again
  succeeds again, under the next key, and the store then holds two more records for
  the pair than before the first call.
\<close>

theorem duplicate_attendance_is_recorded:
  assumes "emargement_route L E d req = (Reply 200 b1, d1)"
  shows "\<exists>r rs b2 d2.
           select_user_by_email d (email (req_body req)) = r # rs \<and>
           emargement_route L E d1 req = (Reply 200 b2, d2) \<and>
           b1 = Obj [(''id'', CNum (auto_emargement d)), (''id_session'', CNum (params_id req)),
                     (''id_etudiant'', CNum (user_id r)), (''status'', CStr ''1'')] \<and>
           b2 = Obj [(''id'', CNum (Suc (auto_emargement d))),
                     (''id_session'', CNum (params_id req)),
                     (''id_etudiant'', CNum (user_id r)), (''status'', CStr ''1'')] \<and>
           attendance_count d2 (params_id req) (user_id r) =
             attendance_count d (params_id req) (user_id r) + 2"
proof -
  let ?sid = "params_id req" and ?data = "req_body req"
  from emargement_route_cases [OF assms]
  obtain req1 where auth: "checkAuthEtud L E req = Inr req1"
    and valid: "emargementSchema L ?data = []"
    and h: "emargement_handler d ?sid ?data = (Reply 200 b1, d1)"
    by blast
  from emargement_handler_success [OF h]
  obtain r rs where sel: "select_user_by_email d (email ?data) = r # rs"
    and se: "session_exists d ?sid" and ue: "user_exists d (user_id r)"
    and b1: "b1 = Obj [(''id'', CNum (auto_emargement d)), (''id_session'', CNum ?sid),
                       (''id_etudiant'', CNum (user_id r)), (''status'', CStr ''1'')]"
    and d1: "d1 = d\<lparr>tbl_emargement := tbl_emargement d @
                     [\<lparr>emargement_id = auto_emargement d, emargement_session_id = ?sid,
                       emargement_etudiant_id = user_id r, emargement_status = ''1''\<rparr>],
                   auto_emargement := Suc (auto_emargement d)\<rparr>"
    by blast
  from sel d1 have sel1: "select_user_by_email d1 (email ?data) = r # rs"
    by (simp add: select_user_by_email_def)
  from se d1 have se1: "session_exists d1 ?sid" by (simp add: session_exists_def)
  from ue d1 have ue1: "user_exists d1 (user_id r)" by (simp add: user_exists_def)
  let ?b2 = "Obj [(''id'', CNum (auto_emargement d1)), (''id_session'', CNum ?sid),
                  (''id_etudiant'', CNum (user_id r)), (''status'', CStr ''1'')]"
  let ?d2 = "d1\<lparr>tbl_emargement := tbl_emargement d1 @
                [\<lparr>emargement_id = auto_emargement d1, emargement_session_id = ?sid,
                  emargement_etudiant_id = user_id r, emargement_status = ''1''\<rparr>],
              auto_emargement := Suc (auto_emargement d1)\<rparr>"
  have "emargement_route L E d1 req = emargement_handler d1 ?sid ?data"
    using auth valid by (rule emargement_route_passes)
  also have "\<dots> = (Reply 200 ?b2, ?d2)"
    using sel1 se1 ue1 by (rule emargement_handler_ok)
  finally have second: "emargement_route L E d1 req = (Reply 200 ?b2, ?d2)" .
  have cnt: "attendance_count ?d2 ?sid (user_id r) = attendance_count d ?sid (user_id r) + 2"
    by (simp add: attendance_count_def d1)
  have next_key: "auto_emargement d1 = Suc (auto_emargement d)" by (simp add: d1)
  from sel second b1 cnt next_key show ?thesis by auto
qed


lemma sample_auth_ana:
  "checkAuthEtud sample_libs sample_env
     \<lparr>authorization = Some ana_token, params_id = i, req_body = b, req_user = None\<rparr>
   = Inr \<lparr>authorization = Some ana_token, params_id = i, req_body = b,
          req_user = Some \<lparr>payload_id = 1, payload_role = ''etudiant''\<rparr>\<rparr>"
  by (simp add: checkAuthEtud_def requireRole_def sample_libs_def sample_env_def
      sample_verify_def ana_token_def Let_def)

lemma sample_zod_email: "zod_email sample_libs s \<longleftrightarrow> CHR ''@'' \<in> set s"
  by (simp add: sample_libs_def)

lemma sample_emargement_ana:
  "emargement_route sample_libs sample_env sample_db
     \<lparr>authorization = Some ana_token, params_id = 5,
      req_body = \<lparr>email = ''ana@x.com''\<rparr>, req_user = None\<rparr>
   = (Reply 200 (Obj [(''id'', CNum 1), (''id_session'', CNum 5),
                      (''id_etudiant'', CNum 1), (''status'', CStr ''1'')]),
      sample_db\<lparr>tbl_emargement :=
                  [\<lparr>emargement_id = 1, emargement_session_id = 5,
                    emargement_etudiant_id = 1, emargement_status = ''1''\<rparr>],
                auto_emargement := 2\<rparr>)"
  by (simp add: emargement_route_def sample_auth_ana validateData_def emargementSchema_def
      field_def emargement_handler_def insert_emargement_def select_user_by_email_def
      session_exists_def user_exists_def sample_db_def sample_zod_email Let_def)

theorem duplicate_attendance_is_recorded_witness:
  "emargement_route sample_libs sample_env sample_db
     \<lparr>authorization = Some ana_token, params_id = 5,
      req_body = \<lparr>email = ''ana@x.com''\<rparr>, req_user = None\<rparr>
   = (Reply 200 (Obj [(''id'', CNum 1), (''id_session'', CNum 5),
                      (''id_etudiant'', CNum 1), (''status'', CStr ''1'')]),
      sample_db\<lparr>tbl_emargement :=
                  [\<lparr>emargement_id = 1, emargement_session_id = 5,
                    emargement_etudiant_id = 1, emargement_status = ''1''\<rparr>],
                auto_emargement := 2\<rparr>) \<and>
   attendance_count sample_db 5 1 = 0 \<and>
   (\<exists>d2. emargement_route sample_libs sample_env
            (sample_db\<lparr>tbl_emargement :=
                        [\<lparr>emargement_id = 1, emargement_session_id = 5,
                          emargement_etudiant_id = 1, emargement_status = ''1''\<rparr>],
                      auto_emargement := 2\<rparr>)
            \<lparr>authorization = Some ana_token, params_id = 5,
             req_body = \<lparr>email = ''ana@x.com''\<rparr>, req_user = None\<rparr>
          = (Reply 200 (Obj [(''id'', CNum 2), (''id_session'', CNum 5),
                             (''id_etudiant'', CNum 1), (''status'', CStr ''1'')]), d2) \<and>
          attendance_count d2 5 1 = 2)"
proof -
  have sel: "select_user_by_email sample_db ''ana@x.com'' =
      [\<lparr>user_id = 1, user_name = ''Ana'', user_email = ''ana@x.com'',
        user_password = ''s1$secret1'', user_role = ''etudiant''\<rparr>]"
    by (simp add: select_user_by_email_def sample_db_def)
  have zero: "attendance_count sample_db 5 1 = 0"
    by (simp add: attendance_count_def sample_db_def)
  have key: "auto_emargement sample_db = 1" by (simp add: sample_db_def)
  from duplicate_attendance_is_recorded [OF sample_emargement_ana] sel zero key
  have "\<exists>d2. emargement_route sample_libs sample_env
            (sample_db\<lparr>tbl_emargement :=
                        [\<lparr>emargement_id = 1, emargement_session_id = 5,
                          emargement_etudiant_id = 1, emargement_status = ''1''\<rparr>],
                      auto_emargement := 2\<rparr>)
            \<lparr>authorization = Some ana_token, params_id = 5,
             req_body = \<lparr>email = ''ana@x.com''\<rparr>, req_user = None\<rparr>
          = (Reply 200 (Obj [(''id'', CNum 2), (''id_session'', CNum 5),
                             (''id_etudiant'', CNum 1), (''status'', CStr ''1'')]), d2) \<and>
          attendance_count d2 5 1 = 2"
    by (auto simp: numeral_2_eq_2)
  with sample_emargement_ana zero show ?thesis by simp
qed


section \<open>Whose attendance is recorded\<close>

lemma requireRole_success:
  "requireRole L E r req = Inr req1 \<Longrightarrow>
     \<exists>tok k p. authorization req = Some tok \<and> JWT_KEY E = Some k \<and>
       jwt_verify L tok k = Some p \<and> payload_role p = r \<and>
       req1 = req\<lparr>req_user := Some p\<rparr>"
  by (auto simp: requireRole_def split: option.splits if_splits)

text \<open>
  Claim C4 fails: Ana, a trainee with identifier 1, presents her own token and the
  e-mail of Bob, trainee 2. The role check lets her through as user 1, and the record that
  is created is Bob's.
\<close>

theorem attendance_recorded_for_another_user:
  "checkAuthEtud sample_libs sample_env
     \<lparr>authorization = Some ana_token, params_id = 5,
      req_body = \<lparr>email = ''bob@x.com''\<rparr>, req_user = None\<rparr>
   = Inr \<lparr>authorization = Some ana_token, params_id = 5,
          req_body = \<lparr>email = ''bob@x.com''\<rparr>,
          req_user = Some \<lparr>payload_id = 1, payload_role = ''etudiant''\<rparr>\<rparr> \<and>
   emargement_route sample_libs sample_env sample_db
     \<lparr>authorization = Some ana_token, params_id = 5,
      req_body = \<lparr>email = ''bob@x.com''\<rparr>, req_user = None\<rparr>
   = (Reply 200 (Obj [(''id'', CNum 1), (''id_session'', CNum 5),
                      (''id_etudiant'', CNum 2), (''status'', CStr ''1'')]),
      sample_db\<lparr>tbl_emargement :=
                  [\<lparr>emargement_id = 1, emargement_session_id = 5,
                    emargement_etudiant_id = 2, emargement_status = ''1''\<rparr>],
                auto_emargement := 2\<rparr>) \<and>
   attendance_count
     (snd (emargement_route sample_libs sample_env sample_db
       \<lparr>authorization = Some ana_token, params_id = 5,
        req_body = \<lparr>email = ''bob@x.com''\<rparr>, req_user = None\<rparr>)) 5 1 = 0"
proof -
  have r: "emargement_route sample_libs sample_env sample_db
     \<lparr>authorization = Some ana_token, params_id = 5,
      req_body = \<lparr>email = ''bob@x.com''\<rparr>, req_user = None\<rparr>
   = (Reply 200 (Obj [(''id'', CNum 1), (''id_session'', CNum 5),
                      (''id_etudiant'', CNum 2), (''status'', CStr ''1'')]),
      sample_db\<lparr>tbl_emargement :=
                  [\<lparr>emargement_id = 1, emargement_session_id = 5,
                    emargement_etudiant_id = 2, emargement_status = ''1''\<rparr>],
                auto_emargement := 2\<rparr>)"
    by (simp add: emargement_route_def sample_auth_ana validateData_def emargementSchema_def
        field_def emargement_handler_def insert_emargement_def select_user_by_email_def
        session_exists_def user_exists_def sample_db_def sample_zod_email Let_def)
  show ?thesis
    by (simp add: r sample_auth_ana attendance_count_def)
qed

text \<open>
  Claim C4 as amended. For every successful call of POST /sessions/:id/emargement,
  the caller presented a token that verifies with the trainee role, and the record
  created is for the session of the path and for the first stored user whose e-mail
  is the one given in the body. The identity in the token is not compared with it.
\<close>

theorem attendance_is_for_the_email_owner:
  assumes "emargement_route L E d req = (Reply 200 b, d')"
  shows "\<exists>tok k p r rs.
           authorization req = Some tok \<and> JWT_KEY E = Some k \<and>
           jwt_verify L tok k = Some p \<and> payload_role p = ''etudiant'' \<and>
           select_user_by_email d (email (req_body req)) = r # rs \<and>
           b = Obj [(''id'', CNum (auto_emargement d)), (''id_session'', CNum (params_id req)),
                    (''id_etudiant'', CNum (user_id r)), (''status'', CStr ''1'')] \<and>
           tbl_emargement d' = tbl_emargement d @
             [\<lparr>emargement_id = auto_emargement d, emargement_session_id = params_id req,
               emargement_etudiant_id = user_id r, emargement_status = ''1''\<rparr>]"
proof -
  from emargement_route_cases [OF assms]
  obtain req1 where auth: "checkAuthEtud L E req = Inr req1"
    and h: "emargement_handler d (params_id req) (req_body req) = (Reply 200 b, d')"
    by blast
  from auth obtain tok k p where "authorization req = Some tok" "JWT_KEY E = Some k"
    "jwt_verify L tok k = Some p" "payload_role p = ''etudiant''"
    unfolding checkAuthEtud_def by (blast dest: requireRole_success)
  moreover from emargement_handler_success [OF h]
  obtain r rs where "select_user_by_email d (email (req_body req)) = r # rs"
    "b = Obj [(''id'', CNum (auto_emargement d)), (''id_session'', CNum (params_id req)),
              (''id_etudiant'', CNum (user_id r)), (''status'', CStr ''1'')]"
    "tbl_emargement d' = tbl_emargement d @
       [\<lparr>emargement_id = auto_emargement d, emargement_session_id = params_id req,
         emargement_etudiant_id = user_id r, emargement_status = ''1''\<rparr>]"
    by auto
  ultimately show ?thesis by blast
qed

theorem attendance_is_for_the_email_owner_witness:
  "emargement_route sample_libs sample_env sample_db
     \<lparr>authorization = Some carol_token, params_id = 5,
      req_body = \<lparr>email = ''bob@x.com''\<rparr>, req_user = None\<rparr>
   = (Rejected Forbidden, sample_db) \<and>
   (\<exists>b d'. emargement_route sample_libs sample_env sample_db
       \<lparr>authorization = Some ''ii.etudiant.k3y'', params_id = 5,
        req_body = \<lparr>email = ''ana@x.com''\<rparr>, req_user = None\<rparr> = (Reply 200 b, d') \<and>
      jwt_verify sample_libs ''ii.etudiant.k3y'' ''k3y'' =
        Some \<lparr>payload_id = 2, payload_role = ''etudiant''\<rparr> \<and>
      tbl_emargement d' =
        [\<lparr>emargement_id = 1, emargement_session_id = 5,
          emargement_etudiant_id = 1, emargement_status = ''1''\<rparr>])"
proof -
  let ?req = "\<lparr>authorization = Some ''ii.etudiant.k3y'', params_id = 5,
        req_body = \<lparr>email = ''ana@x.com''\<rparr>, req_user = None\<rparr>"
  have v: "jwt_verify sample_libs ''ii.etudiant.k3y'' ''k3y'' =
        Some \<lparr>payload_id = 2, payload_role = ''etudiant''\<rparr>"
    by (simp add: sample_libs_def sample_verify_def Let_def)
  have f: "emargement_route sample_libs sample_env sample_db
     \<lparr>authorization = Some carol_token, params_id = 5,
      req_body = \<lparr>email = ''bob@x.com''\<rparr>, req_user = None\<rparr>
   = (Rejected Forbidden, sample_db)"
    by (simp add: emargement_route_def checkAuthEtud_def requireRole_def sample_libs_def
        sample_env_def sample_verify_def carol_token_def Let_def)
  have "\<exists>b d'. emargement_route sample_libs sample_env sample_db ?req = (Reply 200 b, d')"
    by (simp add: emargement_route_def checkAuthEtud_def requireRole_def validateData_def
        emargementSchema_def field_def emargement_handler_def insert_emargement_def
        select_user_by_email_def session_exists_def user_exists_def sample_db_def
        sample_libs_def sample_env_def sample_verify_def Let_def)
  then obtain b d' where
    ok: "emargement_route sample_libs sample_env sample_db ?req = (Reply 200 b, d')"
    by blast
  have sel: "select_user_by_email sample_db ''ana@x.com'' =
      [\<lparr>user_id = 1, user_name = ''Ana'', user_email = ''ana@x.com'',
        user_password = ''s1$secret1'', user_role = ''etudiant''\<rparr>]"
    by (simp add: select_user_by_email_def sample_db_def)
  from attendance_is_for_the_email_owner [OF ok] sel
  have "tbl_emargement d' =
        [\<lparr>emargement_id = 1, emargement_session_id = 5,
          emargement_etudiant_id = 1, emargement_status = ''1''\<rparr>]"
    by (auto simp: sample_db_def)
  with ok v f show ?thesis by blast
qed

section \<open>Session dates\<close>

lemma digit_is_digit: "is_digit (digit n)"
proof -
  have "n mod 10 < length ''0123456789''" by simp
  then have "''0123456789'' ! (n mod 10) \<in> set ''0123456789''" by (rule nth_mem)
  then show ?thesis by (simp only: is_digit_def digit_def)
qed

lemma digit_not_T: "digit n \<noteq> CHR ''T''"
  using digit_is_digit [of n] by (auto simp: is_digit_def)

lemma zod_date_ymd: "zod_date s \<Longrightarrow> is_ymd s"
  by (simp add: zod_date_def)

text \<open>
  The \<open>Date\<close> branch of the loop: a date whose UTC year has four digits becomes the
  text of its UTC day.
\<close>

lemma format_cell_date:
  assumes "0 \<le> y" and "y \<le> 9999"
  shows "format_cell (CDate (UTCDate y mo dd h mi s ms)) =
           Inr (CStr (pad4 (nat y) @ ''-'' @ pad2 mo @ ''-'' @ pad2 dd))"
  using assms
  by (simp add: format_cell_def iso_year_def split_T_0_def pad4_def pad2_def digit_not_T)

lemma pads_ymd: "is_ymd (pad4 y @ ''-'' @ pad2 mo @ ''-'' @ pad2 dd)"
  by (simp add: pad4_def pad2_def is_ymd_def digit_is_digit)

text \<open>What a successful call of POST /sessions did.\<close>

lemma post_sessions_route_success:
  assumes "post_sessions_route L E d req = (Reply 200 b, d')"
  shows "zod_date (date_session (req_body req)) \<and>
         (\<exists>r rs. select_user_by_email d (email (req_body req)) = r # rs \<and>
            b = Obj [(''id'', CNum (auto_session d)),
                     (''title'', CStr (title (req_body req))),
                     (''date'', CStr (date_session (req_body req))),
                     (''id_formateur'', CNum (user_id r))] \<and>
            d' = d\<lparr>tbl_session := tbl_session d @
                      [\<lparr>session_id = auto_session d, session_title = title (req_body req),
                        session_date = date_session (req_body req),
                        session_formateur_id = user_id r\<rparr>],
                    auto_session := Suc (auto_session d)\<rparr>)"
proof -
  let ?data = "req_body req"
  from assms have valid: "sessionsSchema L ?data = []"
    by (auto simp: post_sessions_route_def validateData_def split: list.splits)
  then have date: "zod_date (date_session ?data)"
    by (auto simp: sessionsSchema_def field_def split: if_splits)
  from assms valid have h: "create_session_handler d ?data = (Reply 200 b, d')"
    by (auto simp: post_sessions_route_def validateData_def checkAuthForm_def
        dest: requireRole_keeps split: sum.splits)
  then obtain r rs where sel: "select_user_by_email d (email ?data) = r # rs"
    by (cases "select_user_by_email d (email ?data)")
      (auto simp: create_session_handler_def internal_error_def)
  from h sel have "b = Obj [(''id'', CNum (auto_session d)), (''title'', CStr (title ?data)),
                     (''date'', CStr (date_session ?data)),
                     (''id_formateur'', CNum (user_id r))] \<and>
            d' = d\<lparr>tbl_session := tbl_session d @
                      [\<lparr>session_id = auto_session d, session_title = title ?data,
                        session_date = date_session ?data,
                        session_formateur_id = user_id r\<rparr>],
                    auto_session := Suc (auto_session d)\<rparr>"
    by (auto simp: create_session_handler_def internal_error_def insert_session_def Let_def
        split: if_splits)
  with date sel show ?thesis by blast
qed

lemma post_sessions_route_store:
  "snd (post_sessions_route L E d req) = d \<or>
   (\<exists>b. post_sessions_route L E d req = (Reply 200 b, snd (post_sessions_route L E d req)))"
  by (auto simp: post_sessions_route_def create_session_handler_def internal_error_def
      insert_session_def Let_def split: sum.splits list.splits)


text \<open>The two invariants of the session table hold in every store the service reaches.\<close>

lemma post_sessions_route_inv:
  assumes "keys_fresh d" and "dates_ymd d"
  shows "keys_fresh (snd (post_sessions_route L E d req)) \<and>
         dates_ymd (snd (post_sessions_route L E d req))"
proof -
  from post_sessions_route_store [of L E d req] show ?thesis
  proof
    assume "snd (post_sessions_route L E d req) = d"
    with assms show ?thesis by simp
  next
    assume "\<exists>b. post_sessions_route L E d req =
      (Reply 200 b, snd (post_sessions_route L E d req))"
    then obtain b where
      "post_sessions_route L E d req = (Reply 200 b, snd (post_sessions_route L E d req))" ..
    from post_sessions_route_success [OF this] assms show ?thesis
      by (auto simp: keys_fresh_def dates_ymd_def list_all_iff zod_date_ymd less_Suc_eq)
  qed
qed

lemma put_session_route_inv:
  assumes "keys_fresh d" and "dates_ymd d"
  shows "keys_fresh (snd (put_session_route L E d req)) \<and>
         dates_ymd (snd (put_session_route L E d req))"
proof (cases "checkAuthForm L E req")
  case (Inl e)
  with assms show ?thesis by (simp add: put_session_route_def)
next
  case (Inr req1)
  then have same: "req_body req1 = req_body req"
    unfolding checkAuthForm_def by (auto dest: requireRole_keeps)
  show ?thesis
  proof (cases "modifSessionsSchema (req_body req)")
    case (Cons f fs)
    with Inr same assms show ?thesis by (simp add: put_session_route_def validateData_def)
  next
    case Nil
    then have "zod_date (newDate_session (req_body req))"
      by (auto simp: modifSessionsSchema_def field_def split: if_splits)
    then have "is_ymd (newDate_session (req_body req))" by (rule zod_date_ymd)
    with Nil Inr same assms show ?thesis
      by (auto simp: put_session_route_def validateData_def update_session_handler_def
          update_session_def internal_error_def Let_def keys_fresh_def dates_ymd_def
          list_all_iff split: list.splits)
  qed
qed

lemma delete_session_route_inv:
  assumes "keys_fresh d" and "dates_ymd d"
  shows "keys_fresh (snd (delete_session_route L E d req)) \<and>
         dates_ymd (snd (delete_session_route L E d req))"
  using assms
  by (auto simp: delete_session_route_def delete_session_handler_def delete_session_def
      internal_error_def keys_fresh_def dates_ymd_def list_all_iff split: sum.splits)

lemma signup_route_sessions:
  "tbl_session (snd (signup_route L salt d req)) = tbl_session d \<and>
   auto_session (snd (signup_route L salt d req)) = auto_session d"
  by (auto simp: signup_route_def signup_handler_def insert_user_def Let_def
      split: sum.splits if_splits)

lemma emargement_route_sessions:
  "tbl_session (snd (emargement_route L E d req)) = tbl_session d \<and>
   auto_session (snd (emargement_route L E d req)) = auto_session d"
  by (auto simp: emargement_route_def emargement_handler_def insert_emargement_def Let_def
      split: sum.splits list.splits if_splits)

lemma exec_inv:
  assumes "keys_fresh d" and "dates_ymd d"
  shows "keys_fresh (snd (exec L E d c)) \<and> dates_ymd (snd (exec L E d c))"
proof (cases c)
  case (Signup salt req)
  with assms signup_route_sessions [of L salt d req] show ?thesis
    by (simp add: keys_fresh_def dates_ymd_def)
next
  case (PostSession req)
  with assms show ?thesis by (simp add: post_sessions_route_inv)
next
  case (PutSession req)
  with assms show ?thesis by (simp add: put_session_route_inv)
next
  case (DeleteSession req)
  with assms show ?thesis by (simp add: delete_session_route_inv)
next
  case (PostEmargement req)
  with assms emargement_route_sessions [of L E d req] show ?thesis
    by (simp add: keys_fresh_def dates_ymd_def)
qed (simp_all add: assms)

lemma run_inv:
  "keys_fresh d \<Longrightarrow> dates_ymd d \<Longrightarrow>
     keys_fresh (run L E d cs) \<and> dates_ymd (run L E d cs)"
proof (induction cs arbitrary: d)
  case Nil
  then show ?case by simp
next
  case (Cons c cs)
  from exec_inv [OF Cons.prems, of L E c] Cons.IH show ?case by simp
qed

lemma reachable_inv:
  "keys_fresh (run L E empty_db cs) \<and> dates_ymd (run L E empty_db cs)"
  by (rule run_inv) (simp_all add: keys_fresh_def dates_ymd_def empty_db_def)

text \<open>What the GET handlers return when the stored dates are calendar-date texts.\<close>

lemma delivered_rows_ymd:
  "list_all (\<lambda>s. is_ymd (session_date s)) ss \<Longrightarrow>
     list_all row_date_ymd (map (deliver_session L connectDb) ss)"
  by (induction ss)
    (simp_all add: row_date_ymd_def deliver_session_def deliver_date_def connectDb_def)










end
